theory Spec2Isabelle
  imports Main
begin

section \<open>Python values used by \<open>neurons/Miner/pow.py\<close>\<close>

text \<open>
  A Python \<open>str\<close> is a sequence of Unicode code points. It is modelled as a list of
  natural numbers, one per code point, so that \<open>len\<close>, \<open>in\<close>, \<open>split\<close> and
  \<open>strip\<close> count what Python counts. \<open>str_lit\<close> turns an ASCII literal into such
  a string; the three symbols of the log messages that are outside ASCII are written
  as their code points.
\<close>

type_synonym codepoint = nat
type_synonym pystr = "codepoint list"

definition str_lit :: "string \<Rightarrow> pystr" where
  "str_lit s = map of_char s"

text \<open>
  \<open>str.isspace\<close> on one code point, which is also the set of characters that
  \<open>str.strip()\<close> without argument removes: U+0009..U+000D, U+001C..U+0020, U+0085,
  U+00A0, U+1680, U+2000..U+200A, U+2028, U+2029, U+202F, U+205F, U+3000.
\<close>

definition isspace :: "codepoint \<Rightarrow> bool" where
  "isspace c =
     ((9 \<le> c \<and> c \<le> 13) \<or> (28 \<le> c \<and> c \<le> 32) \<or> c = 0x85 \<or> c = 0xA0 \<or> c = 0x1680 \<or>
      (0x2000 \<le> c \<and> c \<le> 0x200A) \<or> c = 0x2028 \<or> c = 0x2029 \<or> c = 0x202F \<or>
      c = 0x205F \<or> c = 0x3000)"

text \<open>\<open>s.strip()\<close>: whitespace is dropped from the front and from the back.\<close>

definition strip :: "pystr \<Rightarrow> pystr" where
  "strip s = rev (dropWhile isspace (rev (dropWhile isspace s)))"

text \<open>
  \<open>s.split(sep)\<close> for a separator of one character. \<open>split_from sep cur s\<close> scans
  \<open>s\<close> with the field read so far in \<open>cur\<close>; every separator closes a field, and the
  end of the string closes the last one, so \<open>"".split(":")\<close> is \<open>[""]\<close> and
  \<open>"a:".split(":")\<close> is \<open>["a", ""]\<close>.
\<close>

fun split_from :: "'a \<Rightarrow> 'a list \<Rightarrow> 'a list \<Rightarrow> 'a list list" where
  "split_from sep cur [] = [cur]"
| "split_from sep cur (c # cs) =
     (if c = sep then cur # split_from sep [] cs else split_from sep (cur @ [c]) cs)"

definition split :: "'a list \<Rightarrow> 'a \<Rightarrow> 'a list list" where
  "split s sep = split_from sep [] s"

text \<open>\<open>s.startswith(p)\<close> and the substring test \<open>sub in s\<close>.\<close>

fun startswith :: "'a list \<Rightarrow> 'a list \<Rightarrow> bool" where
  "startswith s [] = True"
| "startswith [] (p # ps) = False"
| "startswith (c # cs) (p # ps) = (c = p \<and> startswith cs ps)"

fun contains :: "'a list \<Rightarrow> 'a list \<Rightarrow> bool" where
  "contains [] sub = (sub = [])"
| "contains (c # cs) sub = (startswith (c # cs) sub \<or> contains cs sub)"

text \<open>\<open>sep.join(xs)\<close>.\<close>

fun join :: "'a list \<Rightarrow> 'a list list \<Rightarrow> 'a list" where
  "join sep [] = []"
| "join sep [x] = x"
| "join sep (x # y # ys) = x @ sep @ join sep (y # ys)"

text \<open>\<open>str(n)\<close> for a Python \<open>int\<close>: decimal digits, with a minus sign when negative.\<close>

fun str_nat :: "nat \<Rightarrow> pystr" where
  "str_nat n = (if n < 10 then [48 + n] else str_nat (n div 10) @ [48 + n mod 10])"

declare str_nat.simps [simp del]

definition str_int :: "int \<Rightarrow> pystr" where
  "str_int i = (if i < 0 then 45 # str_nat (nat (- i)) else str_nat (nat i))"

subsection \<open>Exceptions\<close>

text \<open>
  An exception is its class and the text \<open>str(e)\<close>. Only the distinctions that the
  \<open>except\<close> clauses of the module make are kept: \<open>subprocess.TimeoutExpired\<close>; the
  two built-in errors the modelled operations themselves can raise; any other class
  derived from \<open>Exception\<close> (\<open>OSError\<close>, \<open>TypeError\<close>, ...); and the classes derived
  from \<open>BaseException\<close> but not from \<open>Exception\<close> (\<open>KeyboardInterrupt\<close>,
  \<open>SystemExit\<close>), which \<open>except Exception\<close> does not catch.
\<close>

datatype exc_class = TimeoutExpired | IndexError | ValueError | OtherException | BaseExceptionOnly

datatype py_exception = Exc exc_class pystr

fun exc_class_of :: "py_exception \<Rightarrow> exc_class" where
  "exc_class_of (Exc c m) = c"

fun str_exc :: "py_exception \<Rightarrow> pystr" where
  "str_exc (Exc c m) = m"

text \<open>\<open>xs[-1]\<close>: the last element, \<open>IndexError\<close> on the empty list.\<close>

definition index_last :: "'a list \<Rightarrow> py_exception + 'a" where
  "index_last xs =
     (if xs = [] then Inl (Exc IndexError (str_lit ''list index out of range''))
      else Inr (last xs))"

section \<open>The result verifier: \<open>hashcat_verify\<close>\<close>

text \<open>
  \<^verbatim>\<open>
  def hashcat_verify(_hash, output) -> Union[str, None]:
      for item in output.split("\n"):
          if _hash in item:
              return item.strip().split(":")[-1]
      return None
  \<close>
  \<open>verify_items\<close> is the \<open>for\<close> loop over the lines; \<open>Inr None\<close> is the
  \<open>return None\<close> after it, \<open>Inl\<close> an exception raised by the indexing.
\<close>

fun verify_items :: "pystr \<Rightarrow> pystr list \<Rightarrow> py_exception + pystr option" where
  "verify_items hash [] = Inr None"
| "verify_items hash (item # items) =
     (if contains item hash
      then (case index_last (split (strip item) 58) of
              Inl e \<Rightarrow> Inl e
            | Inr field \<Rightarrow> Inr (Some field))
      else verify_items hash items)"

definition hashcat_verify :: "pystr \<Rightarrow> pystr \<Rightarrow> py_exception + pystr option" where
  "hashcat_verify hash output = verify_items hash (split output 10)"

text \<open>
  The extraction as the specification words it: the last field of the first matching
  line, and the trimming applied to that field.
\<close>

definition extract_spec :: "pystr \<Rightarrow> pystr \<Rightarrow> pystr option" where
  "extract_spec target_hash stdout_text =
     (case find (\<lambda>line. contains line target_hash) (split stdout_text 10) of
        None \<Rightarrow> None
      | Some line \<Rightarrow> Some (strip (last (split line 58))))"

section \<open>The process runner: \<open>run_hashcat\<close>\<close>

subsection \<open>What the runner touches outside itself\<close>

text \<open>
  \<open>class PowResult(TypedDict)\<close>. The time is a Python \<open>float\<close>; the model is generic
  in the type \<open>'t\<close> of clock readings and uses nothing of it but its subtraction.
\<close>

record 't PowResult =
  password :: "pystr option"
  local_execution_time :: 't
  error :: "pystr option"

text \<open>
  \<open>subprocess.run(command, capture_output=True, text=True, timeout=timeout)\<close> either
  returns a \<open>CompletedProcess\<close> with the exit code and the two captured texts, or raises.
\<close>

datatype proc_result =
    CompletedProcess (returncode: int) (stdout: pystr) (stderr: pystr)
  | Raises py_exception

text \<open>
  The environment of one call. \<open>time_time k\<close> is the value of the \<open>k\<close>-th call of
  \<open>time.time()\<close> (from 0); \<open>subprocess_run\<close> is the behaviour of the child process
  for an argument vector and a timeout; \<open>format_2f\<close> is the float format
  \<open>{x:0.2f}\<close> of the messages; \<open>uuid4\<close> is the text \<open>str(uuid.uuid4())\<close>;
  \<open>repr_str\<close> is \<open>repr\<close> on strings, which the message of \<open>deque.remove\<close> uses.

  The call of \<open>subprocess.run\<close> is the one call whose exceptions the model has, an
  exception delivered while the child runs (a \<open>KeyboardInterrupt\<close>) included. The calls
  of \<open>time.time\<close>, \<open>bt.logging\<close>, \<open>traceback.print_exc\<close> and \<open>uuid.uuid4\<close> are
  taken to return, and no exception is delivered between the calls.
\<close>

record 't world =
  time_time :: "nat \<Rightarrow> 't"
  subprocess_run :: "pystr list \<Rightarrow> int \<Rightarrow> proc_result"
  format_2f :: "'t \<Rightarrow> pystr"
  uuid4 :: pystr
  repr_str :: "pystr \<Rightarrow> pystr"

text \<open>
  The module's state: the global \<open>queue = deque()\<close>, and the history of what the
  module has done to the outside, in order: the lines written by \<open>bt.logging\<close>, the
  traces printed by \<open>traceback.print_exc()\<close>, and the child processes started by
  \<open>subprocess.run\<close>, each with its argument vector and timeout. Every entry of the
  history holds, beside the event, the contents of the queue at the moment of the
  event: what a reader of the module's \<open>queue\<close> sees while the event happens.
\<close>

datatype log_level = Info | Trace | Success | Warning

datatype output_event =
    Logged log_level pystr
  | PrintExc py_exception
  | Spawned "pystr list" int

record miner_state =
  queue :: "pystr list"
  history :: "(pystr list \<times> output_event) list"

definition emit :: "output_event \<Rightarrow> miner_state \<Rightarrow> miner_state" where
  "emit ev s = s\<lparr>history := history s @ [(queue s, ev)]\<rparr>"

text \<open>
  The call \<open>subprocess.run(command, capture_output=True, text=True, timeout=timeout)\<close>:
  the child is started on the list \<open>command\<close> (there is no \<open>shell=True\<close>), and the
  call ends with what the child does on this list within this timeout.
\<close>

definition call_subprocess_run ::
  "'t world \<Rightarrow> pystr list \<Rightarrow> int \<Rightarrow> miner_state \<Rightarrow> proc_result \<times> miner_state" where
  "call_subprocess_run w command timeout s =
     (subprocess_run w command timeout, emit (Spawned command timeout) s)"

text \<open>
  \<open>shlex.quote\<close>: the empty string becomes \<open>''\<close>; a string of letters, digits,
  underscores and \<open>@%+=:,./-\<close> only (the pattern is compiled with \<open>re.ASCII\<close>) is
  left as it is; any other string is put in single quotes, each single quote of its
  own replaced by \<open>'"'"'\<close>.
\<close>

definition is_shell_safe :: "codepoint \<Rightarrow> bool" where
  "is_shell_safe c =
     ((48 \<le> c \<and> c \<le> 57) \<or> (65 \<le> c \<and> c \<le> 90) \<or> (97 \<le> c \<and> c \<le> 122) \<or> c = 95 \<or>
      c \<in> set (str_lit ''@%+=:,./-''))"

definition shlex_quote :: "pystr \<Rightarrow> pystr" where
  "shlex_quote s =
     (if s = [] then [39, 39]
      else if list_all is_shell_safe s then s
      else [39] @ concat (map (\<lambda>c. if c = 39 then [39, 34, 39, 34, 39] else [c]) s) @ [39])"

subsection \<open>The argument vector\<close>

text \<open>
  The list \<open>command\<close> of lines 75 to 92. \<open>str(chars)\<close> of a \<open>str\<close> is the string
  itself; \<open>mask'\<close> is the parameter \<open>mask\<close>, and \<open>hash\<close> the parameter \<open>_hash\<close>;
  \<open>session\<close> is taken at its annotated type \<open>str\<close>, which is what the one caller in
  the module passes.
\<close>

definition hashcat_command ::
  "pystr \<Rightarrow> pystr \<Rightarrow> pystr \<Rightarrow> pystr \<Rightarrow> pystr \<Rightarrow> pystr \<Rightarrow> pystr \<Rightarrow> pystr \<Rightarrow> pystr list" where
  "hashcat_command hashcat_path hash salt mode chars mask' hashcat_workload_profile session =
     [hashcat_path,
      hash @ str_lit '':'' @ salt,
      str_lit ''-a'',
      str_lit ''3'',
      str_lit ''-D'',
      str_lit ''2'',
      str_lit ''-m'',
      mode,
      str_lit ''-1'',
      chars,
      mask',
      str_lit ''-w'',
      hashcat_workload_profile,
      str_lit ''--session'',
      session,
      str_lit ''--optimized-kernel-enable'']"

subsection \<open>The \<open>except\<close> clauses\<close>

text \<open>
  The two handlers of lines 121 to 141, for an exception \<open>e\<close> raised in the \<open>try\<close>
  block; \<open>k\<close> is the number of clock readings taken before. An exception that is
  neither a \<open>TimeoutExpired\<close> nor an \<open>Exception\<close> passes both clauses and leaves the
  function (\<open>Inl\<close>). U+274C is the cross mark of the messages.
\<close>

definition except_clauses ::
  "('t::minus) world \<Rightarrow> pystr \<Rightarrow> 't \<Rightarrow> nat \<Rightarrow> py_exception \<Rightarrow> miner_state
     \<Rightarrow> (py_exception + 't PowResult) \<times> miner_state" where
  "except_clauses w run_id start_time k e s =
     (if exc_class_of e = TimeoutExpired then
        (let execution_time = time_time w k - start_time;
             error_message =
               run_id @ str_lit '': '' @ [0x274C] @ str_lit '' Hashcat execution timed out (''
                 @ format_2f w execution_time @ str_lit '')''
         in (Inr \<lparr>password = None, local_execution_time = execution_time,
                  error = Some error_message\<rparr>,
             emit (Logged Warning error_message) s))
      else if exc_class_of e \<noteq> BaseExceptionOnly then
        (let execution_time = time_time w k - start_time;
             unknown_error_message =
               run_id @ str_lit '': '' @ [0x274C] @ str_lit '' run_hashcat execution failed''
         in (Inr \<lparr>password = None, local_execution_time = execution_time,
                  error = Some (unknown_error_message @ str_lit '': '' @ str_exc e)\<rparr>,
             emit (Logged Warning (unknown_error_message @ str_lit '': '' @ str_exc e))
               (emit (PrintExc e) s)))
      else (Inl e, s))"

subsection \<open>\<open>run_hashcat\<close>\<close>

text \<open>
  Lines 58 to 141. The result is \<open>Inr\<close> of the returned dictionary, or \<open>Inl\<close> of an
  exception that leaves the function. U+267B U+FE0F is the recycling symbol and U+2705
  the check mark of the messages.
\<close>

definition run_hashcat ::
  "('t::minus) world \<Rightarrow> pystr \<Rightarrow> pystr \<Rightarrow> pystr \<Rightarrow> pystr \<Rightarrow> pystr \<Rightarrow> pystr \<Rightarrow> int \<Rightarrow> pystr
     \<Rightarrow> pystr \<Rightarrow> pystr \<Rightarrow> miner_state \<Rightarrow> (py_exception + 't PowResult) \<times> miner_state" where
  "run_hashcat w run_id hash salt mode chars mask' timeout hashcat_path
       hashcat_workload_profile session s =
     (let start_time = time_time w 0;
          s1 = emit (Logged Info
                 (run_id @ str_lit '': '' @ [0x267B, 0xFE0F] @ str_lit ''  Challenge processing'')) s;
          command = hashcat_command hashcat_path hash salt mode chars mask'
                      hashcat_workload_profile session;
          command_str = join (str_lit '' '') (map shlex_quote command);
          s_trace = emit (Logged Trace command_str) s1;
          (process, s2) = call_subprocess_run w command timeout s_trace
      in case process of
           Raises e \<Rightarrow> except_clauses w run_id start_time 1 e s2
         | CompletedProcess rc out err \<Rightarrow>
             (let execution_time = time_time w 1 - start_time;
                  error_message =
                    run_id @ str_lit '': '' @ [0x274C]
                      @ str_lit '' Hashcat execution failed with code '' @ str_int rc
                      @ str_lit '': '' @ err;
                  failed =
                    (Inr \<lparr>password = None, local_execution_time = execution_time,
                          error = Some error_message\<rparr>,
                     emit (Logged Warning error_message) s2)
              in if rc = 0 \<and> out \<noteq> [] then
                   (case hashcat_verify hash out of
                      Inl e \<Rightarrow> except_clauses w run_id start_time 2 e s2
                    | Inr result \<Rightarrow>
                        (case result of
                           None \<Rightarrow> failed
                         | Some plain \<Rightarrow>
                             if plain \<noteq> [] then
                               (Inr \<lparr>password = Some plain,
                                     local_execution_time = execution_time, error = None\<rparr>,
                                emit (Logged Success
                                  (run_id @ str_lit '': '' @ [0x2705] @ str_lit '' Challenge ''
                                     @ plain @ str_lit '' found in ''
                                     @ format_2f w execution_time @ str_lit '' seconds !'')) s2)
                             else failed))
                 else failed))"

section \<open>The orchestrator: \<open>run_miner_pow\<close>\<close>

text \<open>
  Lines 144 to 172. \<open>queue.append\<close> adds at the right end; \<open>queue.remove\<close> deletes
  the first occurrence and raises \<open>ValueError\<close> when there is none. The \<open>finally\<close>
  clause runs after the call of \<open>run_hashcat\<close> however it ends, and an exception of
  that call goes on to the caller afterwards: the \<open>try\<close> has no \<open>except\<close>.
  \<open>pow_timeout\<close> is \<open>compute.pow_timeout\<close>, a constant of a module outside this one;
  \<open>str(uuid.uuid4()).replace("-", "")\<close> deletes every hyphen (code point 45).
  \<open>hashcat_extended_options\<close> is a parameter of the function. The text of the
  \<open>ValueError\<close> is the one of CPython 3.11, \<open>repr(run_id)\<close> followed by
  \<open>is not in deque\<close>.
\<close>

definition run_miner_pow ::
  "('t::minus) world \<Rightarrow> int \<Rightarrow> pystr \<Rightarrow> pystr \<Rightarrow> pystr \<Rightarrow> pystr \<Rightarrow> pystr \<Rightarrow> pystr \<Rightarrow> pystr
     \<Rightarrow> pystr \<Rightarrow> pystr \<Rightarrow> miner_state \<Rightarrow> (py_exception + 't PowResult) \<times> miner_state" where
  "run_miner_pow w pow_timeout run_id hash salt mode chars mask' hashcat_path
       hashcat_workload_profile hashcat_extended_options s =
     (let s1 = s\<lparr>queue := queue s @ [run_id]\<rparr>;
          (result, s2) =
             run_hashcat w run_id hash salt mode chars mask' pow_timeout hashcat_path
               hashcat_workload_profile (filter (\<lambda>c. c \<noteq> 45) (uuid4 w)) s1
      in if run_id \<in> set (queue s2)
         then (result, s2\<lparr>queue := remove1 run_id (queue s2)\<rparr>)
         else (Inl (Exc ValueError (repr_str w run_id @ str_lit '' is not in deque'')), s2))"

section \<open>Example runs\<close>

text \<open>
  Concrete environments on which the theorems below are instantiated: a clock that
  advances by seven seconds per reading, a rendering of whole seconds, some behaviours
  of the child process, \<open>repr\<close> for strings without quotes or escapes, and two states:
  \<open>idle\<close> with nothing registered, \<open>busy\<close> with \<open>job-1\<close> registered already.
\<close>

definition tick :: "nat \<Rightarrow> int" where
  "tick k = 100 + 7 * int k"

definition show_seconds :: "int \<Rightarrow> pystr" where
  "show_seconds t = str_int t @ str_lit ''.00''"

definition tool_found :: "pystr list \<Rightarrow> int \<Rightarrow> proc_result" where
  "tool_found argv timeout = CompletedProcess 0 (str_lit ''abc:salt:secret123'' @ [10]) []"

definition tool_exhausted :: "pystr list \<Rightarrow> int \<Rightarrow> proc_result" where
  "tool_exhausted argv timeout = CompletedProcess 1 [] (str_lit ''No devices found'')"

definition tool_sleeps :: "pystr list \<Rightarrow> int \<Rightarrow> proc_result" where
  "tool_sleeps argv timeout = Raises (Exc TimeoutExpired (str_lit ''timed out''))"

definition tool_missing :: "pystr list \<Rightarrow> int \<Rightarrow> proc_result" where
  "tool_missing argv timeout = Raises (Exc OtherException (str_lit ''No such file''))"

definition tool_interrupted :: "pystr list \<Rightarrow> int \<Rightarrow> proc_result" where
  "tool_interrupted argv timeout = Raises (Exc BaseExceptionOnly [])"

definition tool_blank :: "pystr list \<Rightarrow> int \<Rightarrow> proc_result" where
  "tool_blank argv timeout = CompletedProcess 0 (str_lit ''abc:salt:'' @ [10]) []"

definition tool_mask_only :: "pystr list \<Rightarrow> int \<Rightarrow> proc_result" where
  "tool_mask_only argv timeout =
     (if take 2 (drop 2 argv) = [str_lit ''-a'', str_lit ''3'']
      then tool_found argv timeout else tool_missing argv timeout)"

definition in_quotes :: "pystr \<Rightarrow> pystr" where
  "in_quotes x = [39] @ x @ [39]"

definition world_of :: "(pystr list \<Rightarrow> int \<Rightarrow> proc_result) \<Rightarrow> int world" where
  "world_of tool =
     \<lparr>time_time = tick, subprocess_run = tool, format_2f = show_seconds,
      uuid4 = str_lit ''1b4e28ba-2fa1-41d2-883f-0016d3cca427'', repr_str = in_quotes\<rparr>"

definition idle :: miner_state where
  "idle = \<lparr>queue = [], history = []\<rparr>"


section \<open>Properties of the string operations\<close>

text \<open>
  The model of \<open>split\<close> agrees with what Python documents: the result is never
  empty, no field holds the separator, and joining the fields with the separator gives
  the string back. The recursive substring test is the existence of a prefix and a
  suffix around the needle.
\<close>

lemma split_from_nonempty: "split_from sep cur s \<noteq> []"
  by (induction s arbitrary: cur) auto

lemma split_nonempty: "split s sep \<noteq> []"
  by (simp add: split_def split_from_nonempty)

lemma split_from_no_sep: "sep \<notin> set s \<Longrightarrow> split_from sep cur s = [cur @ s]"
  by (induction s arbitrary: cur) auto

lemma split_no_sep: "sep \<notin> set s \<Longrightarrow> split s sep = [s]"
  by (simp add: split_def split_from_no_sep)

lemma join_split_from: "join [sep] (split_from sep cur s) = cur @ s"
proof (induction s arbitrary: cur)
  case Nil
  show ?case by simp
next
  case (Cons c cs)
  show ?case
  proof (cases "c = sep")
    case True
    obtain f fs where "split_from sep [] cs = f # fs"
      using split_from_nonempty [of sep "[]" cs] by (cases "split_from sep [] cs") auto
    with Cons [of "[]"] True show ?thesis by simp
  next
    case False
    with Cons [of "cur @ [c]"] show ?thesis by simp
  qed
qed

lemma join_split: "join [sep] (split s sep) = s"
  by (simp add: split_def join_split_from)

lemma split_from_fields: "sep \<notin> set cur \<Longrightarrow> \<forall>f \<in> set (split_from sep cur s). sep \<notin> set f"
proof (induction s arbitrary: cur)
  case Nil
  then show ?case by simp
next
  case (Cons c cs)
  show ?case
  proof (cases "c = sep")
    case True
    have "\<forall>f \<in> set (split_from sep [] cs). sep \<notin> set f"
      using Cons.IH [of "[]"] by simp
    with True Cons.prems show ?thesis by simp
  next
    case False
    have "\<forall>f \<in> set (split_from sep (cur @ [c]) cs). sep \<notin> set f"
      using Cons.IH [of "cur @ [c]"] Cons.prems False by simp
    with False show ?thesis by simp
  qed
qed

lemma split_fields: "f \<in> set (split s sep) \<Longrightarrow> sep \<notin> set f"
  using split_from_fields [of sep "[]" s] by (simp add: split_def)

lemma index_last_split: "index_last (split s sep) = Inr (last (split s sep))"
  by (simp add: index_last_def split_nonempty)

lemma startswith_iff: "startswith s p \<longleftrightarrow> (\<exists>suf. s = p @ suf)"
  by (induction s p rule: startswith.induct) auto

lemma contains_iff: "contains s sub \<longleftrightarrow> (\<exists>pre suf. s = pre @ sub @ suf)"
proof (induction s)
  case Nil
  show ?case by auto
next
  case (Cons c cs)
  show ?case
  proof
    assume "contains (c # cs) sub"
    then consider "startswith (c # cs) sub" | "contains cs sub" by auto
    then show "\<exists>pre suf. c # cs = pre @ sub @ suf"
    proof cases
      case 1
      then obtain suf where "c # cs = sub @ suf" by (auto simp: startswith_iff)
      then have "c # cs = [] @ sub @ suf" by simp
      then show ?thesis by blast
    next
      case 2
      then obtain pre suf where "cs = pre @ sub @ suf" using Cons by auto
      then have "c # cs = (c # pre) @ sub @ suf" by simp
      then show ?thesis by blast
    qed
  next
    assume "\<exists>pre suf. c # cs = pre @ sub @ suf"
    then obtain pre suf where eq: "c # cs = pre @ sub @ suf" by blast
    show "contains (c # cs) sub"
    proof (cases pre)
      case Nil
      with eq have "startswith (c # cs) sub" by (auto simp: startswith_iff)
      then show ?thesis by simp
    next
      case (Cons a pre')
      with eq have "cs = pre' @ sub @ suf" by simp
      then have "contains cs sub" using Cons.IH by blast
      then show ?thesis by simp
    qed
  qed
qed

lemma set_strip: "set (strip s) \<subseteq> set s"
proof -
  have "set (strip s) = set (dropWhile isspace (rev (dropWhile isspace s)))"
    by (simp add: strip_def)
  also have "\<dots> \<subseteq> set (rev (dropWhile isspace s))"
    by (auto dest: set_dropWhileD)
  also have "\<dots> \<subseteq> set s"
    by (auto dest: set_dropWhileD)
  finally show ?thesis .
qed

lemma contains_prefix: "contains (sub @ b) sub"
  unfolding contains_iff by (rule exI [of _ "[]"]) simp

lemma contains_infix: "contains (a @ sub @ b) sub"
  unfolding contains_iff by blast

lemma contains_suffix: "contains (a @ sub) sub"
  using contains_infix [of a sub "[]"] by simp

section \<open>Properties of \<open>hashcat_verify\<close>\<close>

lemma verify_items_find:
  "verify_items hash items =
     Inr (case find (\<lambda>item. contains item hash) items of
            None \<Rightarrow> None
          | Some item \<Rightarrow> Some (last (split (strip item) 58)))"
  by (induction items) (simp_all add: index_last_split)

lemma hashcat_verify_find:
  "hashcat_verify hash output =
     Inr (case find (\<lambda>item. contains item hash) (split output 10) of
            None \<Rightarrow> None
          | Some item \<Rightarrow> Some (last (split (strip item) 58)))"
  by (simp add: hashcat_verify_def verify_items_find)

lemma hashcat_verify_not_Inl: "hashcat_verify hash output \<noteq> Inl e"
  by (simp add: hashcat_verify_find)

section \<open>Properties of \<open>run_hashcat\<close>\<close>

lemma queue_emit: "queue (emit ev s) = queue s"
  by (simp add: emit_def)

lemma queue_except_clauses: "queue (snd (except_clauses w run_id t0 k e s)) = queue s"
  by (simp add: except_clauses_def Let_def queue_emit)

lemma fst_except_clauses:
  "fst (except_clauses w run_id t0 k e s) =
     (if exc_class_of e = TimeoutExpired then
        Inr \<lparr>password = None, local_execution_time = time_time w k - t0,
             error = Some (run_id @ str_lit '': '' @ [0x274C]
                       @ str_lit '' Hashcat execution timed out (''
                       @ format_2f w (time_time w k - t0) @ str_lit '')'')\<rparr>
      else if exc_class_of e \<noteq> BaseExceptionOnly then
        Inr \<lparr>password = None, local_execution_time = time_time w k - t0,
             error = Some (run_id @ str_lit '': '' @ [0x274C]
                       @ str_lit '' run_hashcat execution failed'' @ str_lit '': ''
                       @ str_exc e)\<rparr>
      else Inl e)"
  by (simp add: except_clauses_def Let_def)

lemma queue_run_hashcat:
  "queue (snd (run_hashcat w run_id hash salt mode chars mask' timeout hashcat_path
      hashcat_workload_profile session s)) = queue s"
  by (simp add: run_hashcat_def call_subprocess_run_def Let_def queue_emit queue_except_clauses
      split: proc_result.splits sum.splits option.splits)

lemma run_hashcat_raises:
  "subprocess_run w (hashcat_command hashcat_path hash salt mode chars mask'
       hashcat_workload_profile session) timeout = Raises e \<Longrightarrow>
   fst (run_hashcat w run_id hash salt mode chars mask' timeout hashcat_path
      hashcat_workload_profile session s) =
     fst (except_clauses w run_id (time_time w 0) 1 e s)"
  by (simp add: run_hashcat_def call_subprocess_run_def Let_def fst_except_clauses)

lemma run_hashcat_found:
  "subprocess_run w (hashcat_command hashcat_path hash salt mode chars mask'
       hashcat_workload_profile session) timeout = CompletedProcess 0 out err \<Longrightarrow>
   out \<noteq> [] \<Longrightarrow> hashcat_verify hash out = Inr (Some plain) \<Longrightarrow> plain \<noteq> [] \<Longrightarrow>
   fst (run_hashcat w run_id hash salt mode chars mask' timeout hashcat_path
      hashcat_workload_profile session s) =
     Inr \<lparr>password = Some plain, local_execution_time = time_time w 1 - time_time w 0,
          error = None\<rparr>"
  by (simp add: run_hashcat_def call_subprocess_run_def Let_def)

lemma run_hashcat_failed:
  "subprocess_run w (hashcat_command hashcat_path hash salt mode chars mask'
       hashcat_workload_profile session) timeout = CompletedProcess rc out err \<Longrightarrow>
   \<not> (rc = 0 \<and> out \<noteq> [] \<and> (\<exists>plain. hashcat_verify hash out = Inr (Some plain) \<and> plain \<noteq> [])) \<Longrightarrow>
   fst (run_hashcat w run_id hash salt mode chars mask' timeout hashcat_path
      hashcat_workload_profile session s) =
     Inr \<lparr>password = None, local_execution_time = time_time w 1 - time_time w 0,
          error = Some (run_id @ str_lit '': '' @ [0x274C]
                    @ str_lit '' Hashcat execution failed with code '' @ str_int rc
                    @ str_lit '': '' @ err)\<rparr>"
  by (auto simp add: run_hashcat_def call_subprocess_run_def Let_def hashcat_verify_not_Inl
      split: sum.splits option.splits)

lemma except_clauses_cong:
  "time_time w' = time_time w \<Longrightarrow> format_2f w' = format_2f w \<Longrightarrow>
   except_clauses w' run_id t0 k e s = except_clauses w run_id t0 k e s"
  by (simp add: except_clauses_def)

lemma run_hashcat_cong:
  assumes tool: "subprocess_run w' (hashcat_command hashcat_path hash salt mode chars mask'
       hashcat_workload_profile session) timeout =
     subprocess_run w (hashcat_command hashcat_path hash salt mode chars mask'
       hashcat_workload_profile session) timeout"
    and clock: "time_time w' = time_time w"
    and fmt: "format_2f w' = format_2f w"
  shows "run_hashcat w' run_id hash salt mode chars mask' timeout hashcat_path
      hashcat_workload_profile session s =
    run_hashcat w run_id hash salt mode chars mask' timeout hashcat_path
      hashcat_workload_profile session s"
proof -
  have handlers: "except_clauses w' run_id t0 k e s' = except_clauses w run_id t0 k e s'"
    for t0 k e s'
    using clock fmt by (rule except_clauses_cong)
  show ?thesis
    unfolding run_hashcat_def call_subprocess_run_def Let_def tool clock fmt handlers ..
qed

lemma history_except_clauses:
  "\<exists>rest. history (snd (except_clauses w run_id t0 k e s)) = history s @ rest \<and>
      (\<forall>entry \<in> set rest. fst entry = queue s \<and> (\<forall>c t. snd entry \<noteq> Spawned c t))"
  by (simp add: except_clauses_def Let_def emit_def)

lemma history_run_hashcat:
  "\<exists>rest. history (snd (run_hashcat w run_id hash salt mode chars mask' timeout hashcat_path
      hashcat_workload_profile session s)) =
     history s @
       [(queue s, Logged Info (run_id @ str_lit '': '' @ [0x267B, 0xFE0F]
           @ str_lit ''  Challenge processing'')),
        (queue s, Logged Trace (join (str_lit '' '') (map shlex_quote
           (hashcat_command hashcat_path hash salt mode chars mask'
              hashcat_workload_profile session)))),
        (queue s, Spawned (hashcat_command hashcat_path hash salt mode chars mask'
              hashcat_workload_profile session) timeout)] @ rest \<and>
     (\<forall>entry \<in> set rest. fst entry = queue s \<and> (\<forall>c t. snd entry \<noteq> Spawned c t))"
proof -
  let ?s2 = "emit (Spawned (hashcat_command hashcat_path hash salt mode chars mask'
              hashcat_workload_profile session) timeout)
     (emit (Logged Trace (join (str_lit '' '') (map shlex_quote
         (hashcat_command hashcat_path hash salt mode chars mask'
            hashcat_workload_profile session))))
     (emit (Logged Info (run_id @ str_lit '': '' @ [0x267B, 0xFE0F]
        @ str_lit ''  Challenge processing'')) s))"
  let ?after = "snd (run_hashcat w run_id hash salt mode chars mask' timeout
      hashcat_path hashcat_workload_profile session s)"
  have q2: "queue ?s2 = queue s"
    by (simp add: queue_emit)
  have handled: "\<exists>rest. history (snd (except_clauses w run_id (time_time w 0) k e ?s2)) =
      history ?s2 @ rest \<and>
      (\<forall>entry \<in> set rest. fst entry = queue s \<and> (\<forall>c t. snd entry \<noteq> Spawned c t))"
    for k e
    using history_except_clauses [of w run_id "time_time w 0" k e ?s2] q2 by simp
  have logged: "\<exists>rest. history (emit (Logged level msg) ?s2) = history ?s2 @ rest \<and>
      (\<forall>entry \<in> set rest. fst entry = queue s \<and> (\<forall>c t. snd entry \<noteq> Spawned c t))"
    for level msg
    by (simp add: emit_def)
  have "\<exists>rest. history ?after = history ?s2 @ rest \<and>
      (\<forall>entry \<in> set rest. fst entry = queue s \<and> (\<forall>c t. snd entry \<noteq> Spawned c t))"
    unfolding run_hashcat_def call_subprocess_run_def Let_def
    using handled logged
    by (simp split: proc_result.splits sum.splits option.splits)
  then obtain rest where rest: "history ?after = history ?s2 @ rest"
    "\<forall>entry \<in> set rest. fst entry = queue s \<and> (\<forall>c t. snd entry \<noteq> Spawned c t)"
    by blast
  have "history ?s2 = history s @
       [(queue s, Logged Info (run_id @ str_lit '': '' @ [0x267B, 0xFE0F]
           @ str_lit ''  Challenge processing'')),
        (queue s, Logged Trace (join (str_lit '' '') (map shlex_quote
           (hashcat_command hashcat_path hash salt mode chars mask'
              hashcat_workload_profile session)))),
        (queue s, Spawned (hashcat_command hashcat_path hash salt mode chars mask'
              hashcat_workload_profile session) timeout)]"
    by (simp add: emit_def)
  with rest show ?thesis by simp
qed

section \<open>Properties of \<open>run_miner_pow\<close>\<close>

lemma run_miner_pow_unfold:
  "run_miner_pow w pow_timeout run_id hash salt mode chars mask' hashcat_path
      hashcat_workload_profile hashcat_extended_options s =
   (fst (run_hashcat w run_id hash salt mode chars mask' pow_timeout hashcat_path
           hashcat_workload_profile (filter (\<lambda>c. c \<noteq> 45) (uuid4 w))
           (s\<lparr>queue := queue s @ [run_id]\<rparr>)),
    (snd (run_hashcat w run_id hash salt mode chars mask' pow_timeout hashcat_path
           hashcat_workload_profile (filter (\<lambda>c. c \<noteq> 45) (uuid4 w))
           (s\<lparr>queue := queue s @ [run_id]\<rparr>)))
      \<lparr>queue := remove1 run_id (queue s @ [run_id])\<rparr>)"
proof -
  obtain result s2 where rh:
    "run_hashcat w run_id hash salt mode chars mask' pow_timeout hashcat_path
       hashcat_workload_profile (filter (\<lambda>c. c \<noteq> 45) (uuid4 w))
       (s\<lparr>queue := queue s @ [run_id]\<rparr>) = (result, s2)"
    by (cases "run_hashcat w run_id hash salt mode chars mask' pow_timeout hashcat_path
       hashcat_workload_profile (filter (\<lambda>c. c \<noteq> 45) (uuid4 w))
       (s\<lparr>queue := queue s @ [run_id]\<rparr>)")
  have "queue s2 = queue s @ [run_id]"
    using queue_run_hashcat [of w run_id hash salt mode chars mask' pow_timeout hashcat_path
       hashcat_workload_profile "filter (\<lambda>c. c \<noteq> 45) (uuid4 w)"
       "s\<lparr>queue := queue s @ [run_id]\<rparr>"] rh
    by simp
  with rh show ?thesis
    by (simp add: run_miner_pow_def)
qed

lemma snd_run_miner_pow:
  "snd (run_miner_pow w pow_timeout run_id hash salt mode chars mask' hashcat_path
          hashcat_workload_profile hashcat_extended_options s) =
     (snd (run_hashcat w run_id hash salt mode chars mask' pow_timeout hashcat_path
          hashcat_workload_profile (filter (\<lambda>c. c \<noteq> 45) (uuid4 w)) (s\<lparr>queue := queue s @ [run_id]\<rparr>)))
       \<lparr>queue := remove1 run_id (queue s @ [run_id])\<rparr>"
  by (simp add: run_miner_pow_unfold)

lemma fst_run_miner_pow:
  "fst (run_miner_pow w pow_timeout run_id hash salt mode chars mask' hashcat_path
          hashcat_workload_profile hashcat_extended_options s) =
     fst (run_hashcat w run_id hash salt mode chars mask' pow_timeout hashcat_path
          hashcat_workload_profile (filter (\<lambda>c. c \<noteq> 45) (uuid4 w)) (s\<lparr>queue := queue s @ [run_id]\<rparr>))"
  by (simp add: run_miner_pow_unfold)

lemma count_list_remove1_append:
  "count_list (remove1 x (q @ [x])) x = count_list q x"
  by (induction q) auto

section \<open>The claims about \<open>hashcat_verify\<close>\<close>

text \<open>
  Claim C3, as the specification states it: for the first line of the output that
  contains the target hash, the function returns the last field of that line after
  splitting on the colon, trimmed of surrounding whitespace (\<open>extract_spec\<close>). The
  code trims the line and then splits it, so whitespace between the last colon and the
  plaintext stays in the result: on the output \<open>abc:salt: pw\<close> the code returns
  \<open>" pw"\<close>, and the field trimmed would be \<open>"pw"\<close>.
\<close>

theorem hashcat_verify_field_not_trimmed:
  "hashcat_verify (str_lit ''abc'') (str_lit ''abc:salt: pw'') = Inr (Some (str_lit '' pw'')) \<and>
   extract_spec (str_lit ''abc'') (str_lit ''abc:salt: pw'') = Some (str_lit ''pw'') \<and>
   hashcat_verify (str_lit ''abc'') (str_lit ''abc:salt: pw'')
     \<noteq> Inr (extract_spec (str_lit ''abc'') (str_lit ''abc:salt: pw''))"
  by (simp add: hashcat_verify_def extract_spec_def split_def index_last_def strip_def
      isspace_def str_lit_def)

text \<open>
  Claim C3, amended: for the first line of the output (split at newlines) that contains
  the target hash as a substring, \<open>hashcat_verify\<close> returns the last field, split on
  the colon, of that line trimmed of surrounding whitespace: the trimming is applied to
  the whole line before the split, not to the field. It returns \<open>None\<close> exactly when
  no line contains the target hash.
\<close>

theorem hashcat_verify_extracts:
  "hashcat_verify target_hash stdout_text =
     Inr (case find (\<lambda>line. contains line target_hash) (split stdout_text 10) of
            None \<Rightarrow> None
          | Some line \<Rightarrow> Some (last (split (strip line) 58))) \<and>
   (hashcat_verify target_hash stdout_text = Inr None \<longleftrightarrow>
      (\<forall>line \<in> set (split stdout_text 10). \<not> contains line target_hash))"
proof -
  have "hashcat_verify target_hash stdout_text = Inr None \<longleftrightarrow>
      find (\<lambda>line. contains line target_hash) (split stdout_text 10) = None"
    by (simp add: hashcat_verify_find split: option.splits)
  also have "\<dots> \<longleftrightarrow> (\<forall>line \<in> set (split stdout_text 10). \<not> contains line target_hash)"
    by (auto simp add: find_None_iff)
  finally show ?thesis
    by (simp add: hashcat_verify_find)
qed

text \<open>
  The amended claim C3 on two outputs: a matching second line with a trailing blank,
  and an output with no matching line.
\<close>

theorem hashcat_verify_extracts_witness:
  "hashcat_verify (str_lit ''abc'') (str_lit ''noise'' @ [10] @ str_lit ''abc:salt:secret123 '')
     = Inr (Some (str_lit ''secret123'')) \<and>
   hashcat_verify (str_lit ''abc'') (str_lit ''noise'' @ [10] @ str_lit ''ab:salt:secret123'')
     = Inr None"
proof -
  have "hashcat_verify (str_lit ''abc'') (str_lit ''noise'' @ [10] @ str_lit ''abc:salt:secret123 '')
     = Inr (Some (str_lit ''secret123''))"
    using hashcat_verify_extracts
      [of "str_lit ''abc''" "str_lit ''noise'' @ [10] @ str_lit ''abc:salt:secret123 ''"]
    by (simp add: split_def strip_def isspace_def str_lit_def)
  moreover have "hashcat_verify (str_lit ''abc'')
      (str_lit ''noise'' @ [10] @ str_lit ''ab:salt:secret123'') = Inr None"
    using hashcat_verify_extracts
      [of "str_lit ''abc''" "str_lit ''noise'' @ [10] @ str_lit ''ab:salt:secret123''"]
    by (simp add: split_def str_lit_def)
  ultimately show ?thesis by simp
qed

text \<open>
  Claim C10: for every target hash and every output, \<open>hashcat_verify\<close> returns
  without raising; the index \<open>[-1]\<close> is in bounds since a split on the colon always
  has a field; and when the first matching line has no colon, the whole stripped line
  is the result.
\<close>

theorem hashcat_verify_never_fails:
  "(\<exists>r. hashcat_verify hash output = Inr r) \<and>
   split s 58 \<noteq> [] \<and> index_last (split s 58) = Inr (last (split s 58)) \<and>
   (find (\<lambda>item. contains item hash) (split output 10) = Some item \<and> 58 \<notin> set item \<longrightarrow>
      hashcat_verify hash output = Inr (Some (strip item)))"
proof -
  have total: "\<exists>r. hashcat_verify hash output = Inr r"
    by (simp add: hashcat_verify_find)
  have whole: "hashcat_verify hash output = Inr (Some (strip item))"
    if first: "find (\<lambda>item. contains item hash) (split output 10) = Some item"
      and no_colon: "58 \<notin> set item"
  proof -
    have "58 \<notin> set (strip item)"
      using no_colon set_strip [of item] by blast
    then have "split (strip item) 58 = [strip item]"
      by (rule split_no_sep)
    with first show ?thesis
      by (simp add: hashcat_verify_find)
  qed
  from total whole show ?thesis
    by (simp add: split_nonempty index_last_split)
qed

text \<open>
  Claim C10 on an output whose second line, \<open>" abc "\<close>, is the first to contain the
  hash and has no colon.
\<close>

theorem hashcat_verify_never_fails_witness:
  "find (\<lambda>item. contains item (str_lit ''abc''))
      (split (str_lit ''x'' @ [10] @ str_lit '' abc '' @ [10] @ str_lit ''y'') 10)
     = Some (str_lit '' abc '') \<and>
   58 \<notin> set (str_lit '' abc '') \<and>
   hashcat_verify (str_lit ''abc'') (str_lit ''x'' @ [10] @ str_lit '' abc '' @ [10] @ str_lit ''y'')
     = Inr (Some (str_lit ''abc''))"
proof -
  have first: "find (\<lambda>item. contains item (str_lit ''abc''))
      (split (str_lit ''x'' @ [10] @ str_lit '' abc '' @ [10] @ str_lit ''y'') 10)
     = Some (str_lit '' abc '')"
    by (simp add: split_def str_lit_def)
  have no_colon: "58 \<notin> set (str_lit '' abc '')"
    by (simp add: str_lit_def)
  have trimmed: "strip (str_lit '' abc '') = str_lit ''abc''"
    by (simp add: strip_def isspace_def str_lit_def)
  from hashcat_verify_never_fails
      [of "str_lit ''abc''" "str_lit ''x'' @ [10] @ str_lit '' abc '' @ [10] @ str_lit ''y''"
         _ "str_lit '' abc ''"]
    first no_colon
  have "hashcat_verify (str_lit ''abc'')
      (str_lit ''x'' @ [10] @ str_lit '' abc '' @ [10] @ str_lit ''y'')
     = Inr (Some (strip (str_lit '' abc '')))"
    by blast
  with first no_colon trimmed show ?thesis by simp
qed

section \<open>The claims about \<open>run_hashcat\<close>\<close>

text \<open>
  Claim C4: \<open>run_hashcat\<close> returns a result with the password present and the
  error absent if and only if the child exits with code 0, its captured output is not
  empty, and \<open>hashcat_verify\<close> extracts a non-empty plaintext from it; the password
  is then that plaintext. In particular, with exit code 0 and an extracted plaintext
  that is empty or absent, the result has no password and an error.
\<close>

theorem run_hashcat_success_iff:
  "((\<exists>r plain.
        fst (run_hashcat w run_id hash salt mode chars mask' timeout hashcat_path
               hashcat_workload_profile session s) = Inr r \<and>
        password r = Some plain \<and> error r = None) \<longleftrightarrow>
    (\<exists>out err plain.
        subprocess_run w (hashcat_command hashcat_path hash salt mode chars mask'
            hashcat_workload_profile session) timeout = CompletedProcess 0 out err \<and>
        out \<noteq> [] \<and> hashcat_verify hash out = Inr (Some plain) \<and> plain \<noteq> [])) \<and>
   (subprocess_run w (hashcat_command hashcat_path hash salt mode chars mask'
        hashcat_workload_profile session) timeout = CompletedProcess 0 out err \<and>
    out \<noteq> [] \<and> hashcat_verify hash out = Inr (Some plain) \<and> plain \<noteq> [] \<longrightarrow>
      fst (run_hashcat w run_id hash salt mode chars mask' timeout hashcat_path
             hashcat_workload_profile session s) =
        Inr \<lparr>password = Some plain,
             local_execution_time = time_time w 1 - time_time w 0, error = None\<rparr>) \<and>
   (subprocess_run w (hashcat_command hashcat_path hash salt mode chars mask'
        hashcat_workload_profile session) timeout = CompletedProcess 0 out err \<and>
    (hashcat_verify hash out = Inr None \<or> hashcat_verify hash out = Inr (Some [])) \<longrightarrow>
      (\<exists>r. fst (run_hashcat w run_id hash salt mode chars mask' timeout hashcat_path
                  hashcat_workload_profile session s) = Inr r \<and>
           password r = None \<and> error r \<noteq> None))"
  (is "(?success \<longleftrightarrow> ?found) \<and> ?exact \<and> ?particular")
proof -
  let ?res = "fst (run_hashcat w run_id hash salt mode chars mask' timeout hashcat_path
               hashcat_workload_profile session s)"
  let ?tool = "subprocess_run w (hashcat_command hashcat_path hash salt mode chars mask'
            hashcat_workload_profile session) timeout"
  have forth: ?found if ?success
  proof (cases ?tool)
    case (Raises e)
    then have "?res = fst (except_clauses w run_id (time_time w 0) 1 e s)"
      by (rule run_hashcat_raises)
    with that show ?thesis
      by (auto simp add: fst_except_clauses split: if_splits)
  next
    case (CompletedProcess rc out err)
    show ?thesis
    proof (rule ccontr)
      assume "\<not> ?found"
      with CompletedProcess
      have "\<not> (rc = 0 \<and> out \<noteq> [] \<and> (\<exists>plain. hashcat_verify hash out = Inr (Some plain) \<and> plain \<noteq> []))"
        by auto
      from run_hashcat_failed [OF CompletedProcess this] that show False
        by auto
    qed
  qed
  have conv: ?success if ?found
  proof -
    from that obtain out err plain where
      "?tool = CompletedProcess 0 out err" "out \<noteq> []"
      "hashcat_verify hash out = Inr (Some plain)" "plain \<noteq> []"
      by blast
    from run_hashcat_found [OF this] show ?thesis by simp
  qed
  have exact: ?exact
    using run_hashcat_found by blast
  have particular: ?particular
  proof (intro impI, elim conjE)
    assume tool: "?tool = CompletedProcess 0 out err"
      and nothing: "hashcat_verify hash out = Inr None \<or> hashcat_verify hash out = Inr (Some [])"
    then have "\<not> (0 = (0::int) \<and> out \<noteq> [] \<and> (\<exists>plain. hashcat_verify hash out = Inr (Some plain) \<and> plain \<noteq> []))"
      by auto
    from run_hashcat_failed [OF tool this]
    show "\<exists>r. ?res = Inr r \<and> password r = None \<and> error r \<noteq> None"
      by simp
  qed
  from forth conv exact particular show ?thesis by blast
qed

text \<open>
  Claim C4 on a child that exits 0 and prints \<open>abc:salt:secret123\<close>, and on one that
  exits 0 and prints \<open>abc:salt:\<close>, whose last field is empty.
\<close>

theorem run_hashcat_success_iff_witness:
  "fst (run_hashcat (world_of tool_found) (str_lit ''job-1'') (str_lit ''abc'') (str_lit ''salt'') (str_lit ''610'')
      (str_lit ''?l?d'') (str_lit ''?1?1?1'') 30 (str_lit ''hashcat'') (str_lit ''3'') (str_lit ''tok'') idle) =
     Inr \<lparr>password = Some (str_lit ''secret123''), local_execution_time = 7, error = None\<rparr> \<and>
   (\<exists>r. fst (run_hashcat (world_of tool_blank) (str_lit ''job-1'') (str_lit ''abc'') (str_lit ''salt'') (str_lit ''610'')
      (str_lit ''?l?d'') (str_lit ''?1?1?1'') 30 (str_lit ''hashcat'') (str_lit ''3'') (str_lit ''tok'') idle) = Inr r \<and>
        password r = None \<and> error r \<noteq> None)"
proof -
  have tool: "subprocess_run (world_of tool_found) (hashcat_command (str_lit ''hashcat'') (str_lit ''abc'') (str_lit ''salt'') (str_lit ''610'')
      (str_lit ''?l?d'') (str_lit ''?1?1?1'') (str_lit ''3'') (str_lit ''tok'')) 30 =
      CompletedProcess 0 (str_lit ''abc:salt:secret123'' @ [10]) []"
    by (simp add: world_of_def tool_found_def)
  have printed: "str_lit ''abc:salt:secret123'' @ [10] \<noteq> []"
    by simp
  have verified: "hashcat_verify (str_lit ''abc'') (str_lit ''abc:salt:secret123'' @ [10]) =
      Inr (Some (str_lit ''secret123''))"
    by (simp add: hashcat_verify_def split_def index_last_def strip_def isspace_def str_lit_def)
  have plain: "str_lit ''secret123'' \<noteq> []"
    by (simp add: str_lit_def)
  have found: "fst (run_hashcat (world_of tool_found) (str_lit ''job-1'') (str_lit ''abc'') (str_lit ''salt'') (str_lit ''610'')
      (str_lit ''?l?d'') (str_lit ''?1?1?1'') 30 (str_lit ''hashcat'') (str_lit ''3'') (str_lit ''tok'') idle) =
     Inr \<lparr>password = Some (str_lit ''secret123''),
          local_execution_time = time_time (world_of tool_found) 1 - time_time (world_of tool_found) 0,
          error = None\<rparr>"
    using run_hashcat_success_iff [THEN conjunct2, THEN conjunct1, rule_format,
        OF conjI [OF tool conjI [OF printed conjI [OF verified plain]]]] .
  have tool': "subprocess_run (world_of tool_blank) (hashcat_command (str_lit ''hashcat'') (str_lit ''abc'') (str_lit ''salt'') (str_lit ''610'')
      (str_lit ''?l?d'') (str_lit ''?1?1?1'') (str_lit ''3'') (str_lit ''tok'')) 30 =
      CompletedProcess 0 (str_lit ''abc:salt:'' @ [10]) []"
    by (simp add: world_of_def tool_blank_def)
  have empty: "hashcat_verify (str_lit ''abc'') (str_lit ''abc:salt:'' @ [10]) = Inr None \<or>
      hashcat_verify (str_lit ''abc'') (str_lit ''abc:salt:'' @ [10]) = Inr (Some [])"
    by (simp add: hashcat_verify_def split_def index_last_def strip_def isspace_def str_lit_def)
  have blank: "\<exists>r. fst (run_hashcat (world_of tool_blank) (str_lit ''job-1'') (str_lit ''abc'') (str_lit ''salt'') (str_lit ''610'')
      (str_lit ''?l?d'') (str_lit ''?1?1?1'') 30 (str_lit ''hashcat'') (str_lit ''3'') (str_lit ''tok'') idle) = Inr r \<and>
        password r = None \<and> error r \<noteq> None"
    using run_hashcat_success_iff [THEN conjunct2, THEN conjunct2, rule_format,
        OF conjI [OF tool' empty]] .
  from found blank show ?thesis
    by (simp add: world_of_def tick_def)
qed

text \<open>
  Claim C5: when the child exits with a non-zero code, or exits with code 0 and
  \<open>hashcat_verify\<close> finds no matching line, \<open>run_hashcat\<close> returns a result with
  no password and an error text made of the run id, the exit code and the captured
  standard error, each of which occurs in it.
\<close>

theorem run_hashcat_tool_failure:
  "subprocess_run w (hashcat_command hashcat_path hash salt mode chars mask'
       hashcat_workload_profile session) timeout = CompletedProcess rc out err \<Longrightarrow>
   rc \<noteq> 0 \<or> hashcat_verify hash out = Inr None \<Longrightarrow>
   (\<exists>msg.
      fst (run_hashcat w run_id hash salt mode chars mask' timeout hashcat_path
             hashcat_workload_profile session s) =
        Inr \<lparr>password = None, local_execution_time = time_time w 1 - time_time w 0,
             error = Some msg\<rparr> \<and>
      msg = run_id @ str_lit '': '' @ [0x274C] @ str_lit '' Hashcat execution failed with code ''
              @ str_int rc @ str_lit '': '' @ err \<and>
      contains msg run_id \<and> contains msg (str_int rc) \<and> contains msg err)"
proof -
  assume tool: "subprocess_run w (hashcat_command hashcat_path hash salt mode chars mask'
       hashcat_workload_profile session) timeout = CompletedProcess rc out err"
    and why: "rc \<noteq> 0 \<or> hashcat_verify hash out = Inr None"
  let ?msg = "run_id @ str_lit '': '' @ [0x274C]
      @ str_lit '' Hashcat execution failed with code '' @ str_int rc @ str_lit '': '' @ err"
  from why
  have "\<not> (rc = 0 \<and> out \<noteq> [] \<and> (\<exists>plain. hashcat_verify hash out = Inr (Some plain) \<and> plain \<noteq> []))"
    by auto
  from run_hashcat_failed [OF tool this]
  have res: "fst (run_hashcat w run_id hash salt mode chars mask' timeout hashcat_path
             hashcat_workload_profile session s) =
        Inr \<lparr>password = None, local_execution_time = time_time w 1 - time_time w 0,
             error = Some ?msg\<rparr>" .
  have c1: "contains ?msg run_id"
    by (rule contains_prefix)
  have "?msg = (run_id @ str_lit '': '' @ [0x274C]
      @ str_lit '' Hashcat execution failed with code '') @ str_int rc @ (str_lit '': '' @ err)"
    by simp
  then have c2: "contains ?msg (str_int rc)"
    using contains_infix by metis
  have "?msg = (run_id @ str_lit '': '' @ [0x274C]
      @ str_lit '' Hashcat execution failed with code '' @ str_int rc @ str_lit '': '') @ err"
    by simp
  then have c3: "contains ?msg err"
    using contains_suffix by metis
  from res c1 c2 c3 show ?thesis by blast
qed

text \<open>
  Claim C5 on a child that exits 1 with \<open>No devices found\<close> on standard error.
\<close>

theorem run_hashcat_tool_failure_witness:
  "fst (run_hashcat (world_of tool_exhausted) (str_lit ''job-1'') (str_lit ''abc'') (str_lit ''salt'') (str_lit ''610'')
      (str_lit ''?l?d'') (str_lit ''?1?1?1'') 30 (str_lit ''hashcat'') (str_lit ''3'') (str_lit ''tok'') idle) =
     Inr \<lparr>password = None, local_execution_time = 7,
          error = Some (str_lit ''job-1: '' @ [0x274C]
            @ str_lit '' Hashcat execution failed with code 1: No devices found'')\<rparr>"
proof -
  have tool: "subprocess_run (world_of tool_exhausted) (hashcat_command (str_lit ''hashcat'') (str_lit ''abc'') (str_lit ''salt'') (str_lit ''610'')
      (str_lit ''?l?d'') (str_lit ''?1?1?1'') (str_lit ''3'') (str_lit ''tok'')) 30 =
      CompletedProcess 1 [] (str_lit ''No devices found'')"
    by (simp add: world_of_def tool_exhausted_def)
  have why: "(1::int) \<noteq> 0 \<or> hashcat_verify (str_lit ''abc'') [] = Inr None"
    by simp
  from run_hashcat_tool_failure [OF tool why, of "str_lit ''job-1''" idle] show ?thesis
    by (simp add: world_of_def tick_def str_int_def str_nat.simps str_lit_def)
qed

text \<open>
  Claim C6: when \<open>subprocess.run\<close> raises \<open>TimeoutExpired\<close>, \<open>run_hashcat\<close>
  returns a result with no password, the elapsed time, and an error text that starts
  with the run id and says that the execution timed out.
\<close>

theorem run_hashcat_timeout:
  "subprocess_run w (hashcat_command hashcat_path hash salt mode chars mask'
       hashcat_workload_profile session) timeout = Raises e \<Longrightarrow>
   exc_class_of e = TimeoutExpired \<Longrightarrow>
   (\<exists>msg.
      fst (run_hashcat w run_id hash salt mode chars mask' timeout hashcat_path
             hashcat_workload_profile session s) =
        Inr \<lparr>password = None, local_execution_time = time_time w 1 - time_time w 0,
             error = Some msg\<rparr> \<and>
      msg = run_id @ str_lit '': '' @ [0x274C] @ str_lit '' Hashcat execution timed out (''
              @ format_2f w (time_time w 1 - time_time w 0) @ str_lit '')'' \<and>
      contains msg run_id \<and> contains msg (str_lit ''timed out''))"
proof -
  assume tool: "subprocess_run w (hashcat_command hashcat_path hash salt mode chars mask'
       hashcat_workload_profile session) timeout = Raises e"
    and cls: "exc_class_of e = TimeoutExpired"
  let ?msg = "run_id @ str_lit '': '' @ [0x274C] @ str_lit '' Hashcat execution timed out (''
              @ format_2f w (time_time w 1 - time_time w 0) @ str_lit '')''"
  from run_hashcat_raises [OF tool] cls
  have res: "fst (run_hashcat w run_id hash salt mode chars mask' timeout hashcat_path
             hashcat_workload_profile session s) =
        Inr \<lparr>password = None, local_execution_time = time_time w 1 - time_time w 0,
             error = Some ?msg\<rparr>"
    by (simp add: fst_except_clauses)
  have c1: "contains ?msg run_id"
    by (rule contains_prefix)
  have "str_lit '' Hashcat execution timed out ('' =
      str_lit '' Hashcat execution '' @ str_lit ''timed out'' @ str_lit '' (''"
    by (simp add: str_lit_def)
  then have "?msg = (run_id @ str_lit '': '' @ [0x274C] @ str_lit '' Hashcat execution '')
      @ str_lit ''timed out''
      @ (str_lit '' ('' @ format_2f w (time_time w 1 - time_time w 0) @ str_lit '')'')"
    by simp
  then have c2: "contains ?msg (str_lit ''timed out'')"
    using contains_infix by metis
  from res c1 c2 show ?thesis by blast
qed

text \<open>
  Claim C6 on a child that outlives the timeout, seven seconds after the start.
\<close>

theorem run_hashcat_timeout_witness:
  "fst (run_hashcat (world_of tool_sleeps) (str_lit ''job-1'') (str_lit ''abc'') (str_lit ''salt'') (str_lit ''610'')
      (str_lit ''?l?d'') (str_lit ''?1?1?1'') 30 (str_lit ''hashcat'') (str_lit ''3'') (str_lit ''tok'') idle) =
     Inr \<lparr>password = None, local_execution_time = 7,
          error = Some (str_lit ''job-1: '' @ [0x274C]
            @ str_lit '' Hashcat execution timed out (7.00)'')\<rparr>"
proof -
  have tool: "subprocess_run (world_of tool_sleeps) (hashcat_command (str_lit ''hashcat'') (str_lit ''abc'') (str_lit ''salt'') (str_lit ''610'')
      (str_lit ''?l?d'') (str_lit ''?1?1?1'') (str_lit ''3'') (str_lit ''tok'')) 30 =
      Raises (Exc TimeoutExpired (str_lit ''timed out''))"
    by (simp add: world_of_def tool_sleeps_def)
  have cls: "exc_class_of (Exc TimeoutExpired (str_lit ''timed out'')) = TimeoutExpired"
    by simp
  from run_hashcat_timeout [OF tool cls, of "str_lit ''job-1''" idle] show ?thesis
    by (simp add: world_of_def tick_def show_seconds_def str_int_def str_nat.simps str_lit_def)
qed

text \<open>
  Claim C8: every result that \<open>run_hashcat\<close> returns has as its
  \<open>local_execution_time\<close> the clock reading taken after the child ended (or the call
  of it failed) minus the reading taken at the start; and a result is returned on each
  of the four outcomes, that is whenever the call of the child does not raise an
  exception outside \<open>Exception\<close>.
\<close>

theorem run_hashcat_execution_time:
  "(\<forall>r. fst (run_hashcat w run_id hash salt mode chars mask' timeout hashcat_path
             hashcat_workload_profile session s) = Inr r \<longrightarrow>
        local_execution_time r = time_time w 1 - time_time w 0) \<and>
   ((\<forall>m. subprocess_run w (hashcat_command hashcat_path hash salt mode chars mask'
            hashcat_workload_profile session) timeout \<noteq> Raises (Exc BaseExceptionOnly m)) \<longrightarrow>
      (\<exists>r. fst (run_hashcat w run_id hash salt mode chars mask' timeout hashcat_path
                  hashcat_workload_profile session s) = Inr r))"
proof (cases "subprocess_run w (hashcat_command hashcat_path hash salt mode chars mask'
            hashcat_workload_profile session) timeout")
  case (Raises e)
  obtain c m where e: "e = Exc c m" by (cases e)
  from run_hashcat_raises [OF Raises] e Raises show ?thesis
    by (auto simp add: fst_except_clauses split: if_splits)
next
  case (CompletedProcess rc out err)
  show ?thesis
  proof (cases "rc = 0 \<and> out \<noteq> [] \<and> (\<exists>plain. hashcat_verify hash out = Inr (Some plain) \<and> plain \<noteq> [])")
    case True
    then obtain plain where "rc = 0" "out \<noteq> []" "hashcat_verify hash out = Inr (Some plain)"
      "plain \<noteq> []" by blast
    with CompletedProcess run_hashcat_found [of w hashcat_path hash salt mode chars mask'
        hashcat_workload_profile session timeout out err plain run_id s]
    show ?thesis by auto
  next
    case False
    from run_hashcat_failed [OF CompletedProcess False] show ?thesis by auto
  qed
qed

text \<open>
  Claim C8 on a child that cannot be started (an \<open>OSError\<close>).
\<close>

theorem run_hashcat_execution_time_witness:
  "\<exists>r. fst (run_hashcat (world_of tool_missing) (str_lit ''job-1'') (str_lit ''abc'') (str_lit ''salt'') (str_lit ''610'')
      (str_lit ''?l?d'') (str_lit ''?1?1?1'') 30 (str_lit ''hashcat'') (str_lit ''3'') (str_lit ''tok'') idle) = Inr r \<and>
      local_execution_time r = 7"
proof -
  have caught: "\<forall>m. subprocess_run (world_of tool_missing) (hashcat_command (str_lit ''hashcat'') (str_lit ''abc'') (str_lit ''salt'') (str_lit ''610'')
      (str_lit ''?l?d'') (str_lit ''?1?1?1'') (str_lit ''3'') (str_lit ''tok'')) 30 \<noteq>
      Raises (Exc BaseExceptionOnly m)"
    by (simp add: world_of_def tool_missing_def)
  from run_hashcat_execution_time [THEN conjunct2, THEN mp, OF caught, of "str_lit ''job-1''" idle]
  obtain r where r: "fst (run_hashcat (world_of tool_missing) (str_lit ''job-1'') (str_lit ''abc'') (str_lit ''salt'') (str_lit ''610'')
      (str_lit ''?l?d'') (str_lit ''?1?1?1'') 30 (str_lit ''hashcat'') (str_lit ''3'') (str_lit ''tok'') idle) = Inr r"
    by blast
  from run_hashcat_execution_time [THEN conjunct1, rule_format, OF r]
  have "local_execution_time r =
      time_time (world_of tool_missing) 1 - time_time (world_of tool_missing) 0" .
  then have "local_execution_time r = 7"
    by (simp add: world_of_def tick_def)
  with r show ?thesis by blast
qed

text \<open>
  Claim C9: the argument vector is the tool path, \<open>hash:salt\<close>, \<open>-a 3\<close>,
  \<open>-D 2\<close>, \<open>-m mode\<close>, \<open>-1 charset\<close>, the mask, \<open>-w profile\<close>,
  \<open>--session token\<close> and \<open>--optimized-kernel-enable\<close>, in this order, with mode,
  charset and mask as they were given. \<open>run_hashcat\<close> writes the quoted arguments,
  joined by blanks, to the trace log, and then starts one child and no other, on the
  list itself and with the given timeout. What it returns is made of the outcome of the
  child on this list: the result of the handlers when the call raises, the failure with
  the exit code and the standard error of the child when the code is not 0, the
  extracted password on success; and two environments that agree on the outcome for
  this list give the same run.
\<close>

theorem run_hashcat_argument_vector:
  "(let argv =
          [hashcat_path, hash @ str_lit '':'' @ salt, str_lit ''-a'', str_lit ''3'',
           str_lit ''-D'', str_lit ''2'', str_lit ''-m'', mode, str_lit ''-1'', chars, mask',
           str_lit ''-w'', hashcat_workload_profile, str_lit ''--session'', session,
           str_lit ''--optimized-kernel-enable'']
    in hashcat_command hashcat_path hash salt mode chars mask' hashcat_workload_profile session = argv \<and>
       (\<exists>rest.
          history (snd (run_hashcat w run_id hash salt mode chars mask' timeout hashcat_path
          hashcat_workload_profile session s)) =
            history s @
              [(queue s, Logged Info (run_id @ str_lit '': '' @ [0x267B, 0xFE0F] @ str_lit ''  Challenge processing'')),
               (queue s, Logged Trace (join (str_lit '' '') (map shlex_quote argv))),
               (queue s, Spawned argv timeout)] @ rest \<and>
          (\<forall>entry \<in> set rest. \<forall>c t. snd entry \<noteq> Spawned c t)) \<and>
       (subprocess_run w argv timeout = Raises e \<longrightarrow>
          fst (run_hashcat w run_id hash salt mode chars mask' timeout hashcat_path
          hashcat_workload_profile session s) =
            fst (except_clauses w run_id (time_time w 0) 1 e s)) \<and>
       (subprocess_run w argv timeout = CompletedProcess rc out err \<and> rc \<noteq> 0 \<longrightarrow>
          fst (run_hashcat w run_id hash salt mode chars mask' timeout hashcat_path
          hashcat_workload_profile session s) =
            Inr \<lparr>password = None, local_execution_time = time_time w 1 - time_time w 0,
                 error = Some (run_id @ str_lit '': '' @ [0x274C]
                   @ str_lit '' Hashcat execution failed with code '' @ str_int rc
                   @ str_lit '': '' @ err)\<rparr>) \<and>
       (subprocess_run w argv timeout = CompletedProcess 0 out err \<and> out \<noteq> [] \<and>
        hashcat_verify hash out = Inr (Some plain) \<and> plain \<noteq> [] \<longrightarrow>
          fst (run_hashcat w run_id hash salt mode chars mask' timeout hashcat_path
          hashcat_workload_profile session s) =
            Inr \<lparr>password = Some plain,
                 local_execution_time = time_time w 1 - time_time w 0, error = None\<rparr>) \<and>
       (subprocess_run w' argv timeout = subprocess_run w argv timeout \<and>
        time_time w' = time_time w \<and> format_2f w' = format_2f w \<longrightarrow>
          run_hashcat w' run_id hash salt mode chars mask' timeout hashcat_path
          hashcat_workload_profile session s =
          run_hashcat w run_id hash salt mode chars mask' timeout hashcat_path
          hashcat_workload_profile session s))"
proof -
  let ?argv = "[hashcat_path, hash @ str_lit '':'' @ salt, str_lit ''-a'', str_lit ''3'',
           str_lit ''-D'', str_lit ''2'', str_lit ''-m'', mode, str_lit ''-1'', chars, mask',
           str_lit ''-w'', hashcat_workload_profile, str_lit ''--session'', session,
           str_lit ''--optimized-kernel-enable'']"
  have argv: "hashcat_command hashcat_path hash salt mode chars mask' hashcat_workload_profile session = ?argv"
    by (simp add: hashcat_command_def)
  from history_run_hashcat [of w run_id hash salt mode chars mask' timeout hashcat_path
      hashcat_workload_profile session s]
  have launched: "\<exists>rest.
      history (snd (run_hashcat w run_id hash salt mode chars mask' timeout hashcat_path
          hashcat_workload_profile session s)) =
        history s @
          [(queue s, Logged Info (run_id @ str_lit '': '' @ [0x267B, 0xFE0F] @ str_lit ''  Challenge processing'')),
           (queue s, Logged Trace (join (str_lit '' '') (map shlex_quote ?argv))),
           (queue s, Spawned ?argv timeout)] @ rest \<and>
      (\<forall>entry \<in> set rest. \<forall>c t. snd entry \<noteq> Spawned c t)"
    unfolding argv by blast
  have raised: "fst (run_hashcat w run_id hash salt mode chars mask' timeout hashcat_path
          hashcat_workload_profile session s) =
      fst (except_clauses w run_id (time_time w 0) 1 e s)"
    if "subprocess_run w ?argv timeout = Raises e"
    using that run_hashcat_raises [of w hashcat_path hash salt mode chars mask'
      hashcat_workload_profile session timeout e run_id s]
    unfolding argv by simp
  have failed: "fst (run_hashcat w run_id hash salt mode chars mask' timeout hashcat_path
          hashcat_workload_profile session s) =
      Inr \<lparr>password = None, local_execution_time = time_time w 1 - time_time w 0,
           error = Some (run_id @ str_lit '': '' @ [0x274C]
             @ str_lit '' Hashcat execution failed with code '' @ str_int rc
             @ str_lit '': '' @ err)\<rparr>"
    if "subprocess_run w ?argv timeout = CompletedProcess rc out err" and "rc \<noteq> 0"
    using that run_hashcat_failed [of w hashcat_path hash salt mode chars mask'
      hashcat_workload_profile session timeout rc out err run_id s]
    unfolding argv by simp
  have found: "fst (run_hashcat w run_id hash salt mode chars mask' timeout hashcat_path
          hashcat_workload_profile session s) =
      Inr \<lparr>password = Some plain,
           local_execution_time = time_time w 1 - time_time w 0, error = None\<rparr>"
    if "subprocess_run w ?argv timeout = CompletedProcess 0 out err" and "out \<noteq> []"
      and "hashcat_verify hash out = Inr (Some plain)" and "plain \<noteq> []"
    using that run_hashcat_found [of w hashcat_path hash salt mode chars mask'
      hashcat_workload_profile session timeout out err plain run_id s]
    unfolding argv by simp
  have only: "run_hashcat w' run_id hash salt mode chars mask' timeout hashcat_path
          hashcat_workload_profile session s =
      run_hashcat w run_id hash salt mode chars mask' timeout hashcat_path
          hashcat_workload_profile session s"
    if "subprocess_run w' ?argv timeout = subprocess_run w ?argv timeout"
      and "time_time w' = time_time w" and "format_2f w' = format_2f w"
    using that run_hashcat_cong [of w' hashcat_path hash salt mode chars mask'
      hashcat_workload_profile session timeout w run_id s]
    unfolding argv by simp
  from argv launched raised failed found only show ?thesis
    unfolding Let_def by blast
qed

text \<open>
  Claim C9 on a child that exits 1: the third entry of the history is the start of
  the child on the sixteen arguments, and the result carries its exit code and standard
  error; and on two tools that behave alike on a mask attack (\<open>-a 3\<close>) and
  differently on every other argument vector.
\<close>

theorem run_hashcat_argument_vector_witness:
  "history (snd (run_hashcat (world_of tool_exhausted) (str_lit ''job-1'') (str_lit ''abc'') (str_lit ''salt'') (str_lit ''610'')
      (str_lit ''?l?d'') (str_lit ''?1?1?1'') 30 (str_lit ''hashcat'') (str_lit ''3'') (str_lit ''tok'') idle)) ! 2 =
     ([], Spawned
       [str_lit ''hashcat'', str_lit ''abc:salt'', str_lit ''-a'', str_lit ''3'',
        str_lit ''-D'', str_lit ''2'', str_lit ''-m'', str_lit ''610'', str_lit ''-1'',
        str_lit ''?l?d'', str_lit ''?1?1?1'', str_lit ''-w'', str_lit ''3'',
        str_lit ''--session'', str_lit ''tok'', str_lit ''--optimized-kernel-enable''] 30) \<and>
   fst (run_hashcat (world_of tool_exhausted) (str_lit ''job-1'') (str_lit ''abc'') (str_lit ''salt'') (str_lit ''610'')
      (str_lit ''?l?d'') (str_lit ''?1?1?1'') 30 (str_lit ''hashcat'') (str_lit ''3'') (str_lit ''tok'') idle) =
     Inr \<lparr>password = None, local_execution_time = 7,
          error = Some (str_lit ''job-1: '' @ [0x274C]
            @ str_lit '' Hashcat execution failed with code 1: No devices found'')\<rparr> \<and>
   run_hashcat (world_of tool_mask_only) (str_lit ''job-1'') (str_lit ''abc'') (str_lit ''salt'') (str_lit ''610'')
      (str_lit ''?l?d'') (str_lit ''?1?1?1'') 30 (str_lit ''hashcat'') (str_lit ''3'') (str_lit ''tok'') idle =
   run_hashcat (world_of tool_found) (str_lit ''job-1'') (str_lit ''abc'') (str_lit ''salt'') (str_lit ''610'')
      (str_lit ''?l?d'') (str_lit ''?1?1?1'') 30 (str_lit ''hashcat'') (str_lit ''3'') (str_lit ''tok'') idle"
proof -
  note vector = run_hashcat_argument_vector [unfolded Let_def]
  let ?argv = "[str_lit ''hashcat'', str_lit ''abc'' @ str_lit '':'' @ str_lit ''salt'', str_lit ''-a'', str_lit ''3'',
        str_lit ''-D'', str_lit ''2'', str_lit ''-m'', str_lit ''610'', str_lit ''-1'',
        str_lit ''?l?d'', str_lit ''?1?1?1'', str_lit ''-w'', str_lit ''3'',
        str_lit ''--session'', str_lit ''tok'', str_lit ''--optimized-kernel-enable'']"
  from vector [of "str_lit ''hashcat''" "str_lit ''abc''" "str_lit ''salt''" "str_lit ''610''" "str_lit ''?l?d''" "str_lit ''?1?1?1''" "str_lit ''3''" "str_lit ''tok''"
      "world_of tool_exhausted" "str_lit ''job-1''" 30 idle]
  obtain rest where "history (snd (run_hashcat (world_of tool_exhausted) (str_lit ''job-1'') (str_lit ''abc'') (str_lit ''salt'') (str_lit ''610'')
      (str_lit ''?l?d'') (str_lit ''?1?1?1'') 30 (str_lit ''hashcat'') (str_lit ''3'') (str_lit ''tok'') idle)) =
      history idle @
        [(queue idle, Logged Info (str_lit ''job-1'' @ str_lit '': '' @ [0x267B, 0xFE0F]
            @ str_lit ''  Challenge processing'')),
         (queue idle, Logged Trace (join (str_lit '' '') (map shlex_quote ?argv))),
         (queue idle, Spawned ?argv 30)] @ rest"
    by blast
  then have spawned: "history (snd (run_hashcat (world_of tool_exhausted) (str_lit ''job-1'') (str_lit ''abc'') (str_lit ''salt'') (str_lit ''610'')
      (str_lit ''?l?d'') (str_lit ''?1?1?1'') 30 (str_lit ''hashcat'') (str_lit ''3'') (str_lit ''tok'') idle)) ! 2 =
      ([], Spawned ?argv 30)"
    by (simp add: idle_def)
  have tool: "subprocess_run (world_of tool_exhausted) ?argv 30 =
      CompletedProcess 1 [] (str_lit ''No devices found'') \<and> (1::int) \<noteq> 0"
    by (simp add: world_of_def tool_exhausted_def)
  from vector [THEN conjunct2, THEN conjunct2, THEN conjunct2, THEN conjunct1, rule_format, OF tool]
  have failed: "fst (run_hashcat (world_of tool_exhausted) (str_lit ''job-1'') (str_lit ''abc'') (str_lit ''salt'') (str_lit ''610'')
      (str_lit ''?l?d'') (str_lit ''?1?1?1'') 30 (str_lit ''hashcat'') (str_lit ''3'') (str_lit ''tok'') idle) =
      Inr \<lparr>password = None,
           local_execution_time =
             time_time (world_of tool_exhausted) 1 - time_time (world_of tool_exhausted) 0,
           error = Some (str_lit ''job-1'' @ str_lit '': '' @ [0x274C]
             @ str_lit '' Hashcat execution failed with code '' @ str_int 1
             @ str_lit '': '' @ str_lit ''No devices found'')\<rparr>" .
  have same: "subprocess_run (world_of tool_mask_only) ?argv 30 =
      subprocess_run (world_of tool_found) ?argv 30 \<and>
      time_time (world_of tool_mask_only) = time_time (world_of tool_found) \<and>
      format_2f (world_of tool_mask_only) = format_2f (world_of tool_found)"
    by (simp add: world_of_def tool_mask_only_def)
  from vector [THEN conjunct2, THEN conjunct2, THEN conjunct2, THEN conjunct2, THEN conjunct2,
      rule_format, OF same]
  have only: "run_hashcat (world_of tool_mask_only) (str_lit ''job-1'') (str_lit ''abc'') (str_lit ''salt'') (str_lit ''610'')
      (str_lit ''?l?d'') (str_lit ''?1?1?1'') 30 (str_lit ''hashcat'') (str_lit ''3'') (str_lit ''tok'') idle =
      run_hashcat (world_of tool_found) (str_lit ''job-1'') (str_lit ''abc'') (str_lit ''salt'') (str_lit ''610'')
      (str_lit ''?l?d'') (str_lit ''?1?1?1'') 30 (str_lit ''hashcat'') (str_lit ''3'') (str_lit ''tok'') idle" .
  from spawned failed only show ?thesis
    by (simp add: world_of_def tick_def str_int_def str_nat.simps str_lit_def)
qed

section \<open>The claims about \<open>run_miner_pow\<close>\<close>

text \<open>
  Claim C1, as the specification states it: \<open>run_miner_pow\<close> never raises, and every
  failure, an exception inside the runner included, comes back as a result with the
  error set. \<open>run_hashcat\<close> catches \<open>TimeoutExpired\<close> and \<open>Exception\<close>, and the
  \<open>try\<close> of \<open>run_miner_pow\<close> has a \<open>finally\<close> and no \<open>except\<close>: when the
  call of the child is interrupted by an exception outside \<open>Exception\<close> (a
  \<open>KeyboardInterrupt\<close>), the caller receives that exception.
\<close>

theorem run_miner_pow_raises_on_interrupt:
  "fst (run_miner_pow (world_of tool_interrupted) 30 (str_lit ''job-1'') (str_lit ''abc'') (str_lit ''salt'') (str_lit ''610'')
      (str_lit ''?l?d'') (str_lit ''?1?1?1'') (str_lit ''hashcat'') (str_lit ''3'') (str_lit ''--force'') idle) = Inl (Exc BaseExceptionOnly [])"
  by (simp add: run_miner_pow_def run_hashcat_def call_subprocess_run_def except_clauses_def
      world_of_def tool_interrupted_def idle_def emit_def Let_def)

text \<open>
  Claim C1, amended. The statement is for the runs that the model has: no exception
  outside \<open>Exception\<close> is delivered at a point of the dispatch other than the call of
  the child, and the calls of the clock, the logger and \<open>uuid4\<close> return. Then:
  whenever the call of the child returns or raises an exception derived from
  \<open>Exception\<close>, \<open>run_miner_pow\<close> returns a result, whose error is absent exactly when
  the child exited with code 0 and a non-empty plaintext was extracted from its
  non-empty output, which is exactly when the password is present, so that every other
  path has the error set; an exception outside \<open>Exception\<close> raised by the call of the
  child is raised to the caller; and in every case \<open>run_miner_pow\<close> ends with one
  occurrence of \<open>run_id\<close> removed from the queue that had \<open>run_id\<close> appended, so
  that \<open>run_id\<close> occurs in it as often as before the call.
\<close>

theorem run_miner_pow_returns_result:
  "((\<forall>m. subprocess_run w (hashcat_command hashcat_path hash salt mode chars mask'
          hashcat_workload_profile (filter (\<lambda>c. c \<noteq> 45) (uuid4 w))) pow_timeout
          \<noteq> Raises (Exc BaseExceptionOnly m)) \<longrightarrow>
    (\<exists>r. fst (run_miner_pow w pow_timeout run_id hash salt mode chars mask' hashcat_path
          hashcat_workload_profile hashcat_extended_options s) = Inr r \<and>
         (error r = None \<longleftrightarrow>
            (\<exists>out err plain.
               subprocess_run w (hashcat_command hashcat_path hash salt mode chars mask'
          hashcat_workload_profile (filter (\<lambda>c. c \<noteq> 45) (uuid4 w))) pow_timeout
                 = CompletedProcess 0 out err \<and>
               out \<noteq> [] \<and> hashcat_verify hash out = Inr (Some plain) \<and> plain \<noteq> [])) \<and>
         (error r = None \<longleftrightarrow> password r \<noteq> None))) \<and>
   (subprocess_run w (hashcat_command hashcat_path hash salt mode chars mask'
          hashcat_workload_profile (filter (\<lambda>c. c \<noteq> 45) (uuid4 w))) pow_timeout
      = Raises (Exc BaseExceptionOnly m) \<longrightarrow>
    fst (run_miner_pow w pow_timeout run_id hash salt mode chars mask' hashcat_path
          hashcat_workload_profile hashcat_extended_options s) = Inl (Exc BaseExceptionOnly m)) \<and>
   queue (snd (run_miner_pow w pow_timeout run_id hash salt mode chars mask' hashcat_path
          hashcat_workload_profile hashcat_extended_options s)) = remove1 run_id (queue s @ [run_id]) \<and>
   count_list (queue (snd (run_miner_pow w pow_timeout run_id hash salt mode chars mask' hashcat_path
          hashcat_workload_profile hashcat_extended_options s))) run_id = count_list (queue s) run_id"
proof -
  let ?tool = "subprocess_run w (hashcat_command hashcat_path hash salt mode chars mask'
          hashcat_workload_profile (filter (\<lambda>c. c \<noteq> 45) (uuid4 w))) pow_timeout"
  let ?res = "fst (run_miner_pow w pow_timeout run_id hash salt mode chars mask' hashcat_path
          hashcat_workload_profile hashcat_extended_options s)"
  let ?s1 = "s\<lparr>queue := queue s @ [run_id]\<rparr>"
  have res: "?res = fst (run_hashcat w run_id hash salt mode chars mask' pow_timeout hashcat_path
          hashcat_workload_profile (filter (\<lambda>c. c \<noteq> 45) (uuid4 w)) (s\<lparr>queue := queue s @ [run_id]\<rparr>))"
    by (rule fst_run_miner_pow)
  have escapes: "?res = Inl (Exc BaseExceptionOnly m)"
    if "?tool = Raises (Exc BaseExceptionOnly m)"
    using run_hashcat_raises [OF that, of run_id ?s1] res
    by (simp add: fst_except_clauses)
  have returns: "\<exists>r. ?res = Inr r \<and>
         (error r = None \<longleftrightarrow>
            (\<exists>out err plain. ?tool = CompletedProcess 0 out err \<and>
               out \<noteq> [] \<and> hashcat_verify hash out = Inr (Some plain) \<and> plain \<noteq> [])) \<and>
         (error r = None \<longleftrightarrow> password r \<noteq> None)"
    if caught: "\<forall>m. ?tool \<noteq> Raises (Exc BaseExceptionOnly m)"
  proof (cases ?tool)
    case (Raises e)
    obtain c msg where e: "e = Exc c msg" by (cases e)
    with caught Raises have "c \<noteq> BaseExceptionOnly" by auto
    with run_hashcat_raises [OF Raises, of run_id ?s1] res e Raises show ?thesis
      by (auto simp add: fst_except_clauses)
  next
    case (CompletedProcess rc out err)
    show ?thesis
    proof (cases "rc = 0 \<and> out \<noteq> [] \<and> (\<exists>plain. hashcat_verify hash out = Inr (Some plain) \<and> plain \<noteq> [])")
      case True
      then obtain plain where found: "rc = 0" "out \<noteq> []"
        "hashcat_verify hash out = Inr (Some plain)" "plain \<noteq> []" by blast
      from CompletedProcess found(1) have "?tool = CompletedProcess 0 out err" by simp
      from run_hashcat_found [OF this found(2-4), of run_id ?s1] res CompletedProcess found
      show ?thesis by auto
    next
      case False
      from run_hashcat_failed [OF CompletedProcess False, of run_id ?s1] res CompletedProcess False
      show ?thesis by auto
    qed
  qed
  have after: "queue (snd (run_miner_pow w pow_timeout run_id hash salt mode chars mask' hashcat_path
          hashcat_workload_profile hashcat_extended_options s)) = remove1 run_id (queue s @ [run_id])"
    by (simp add: snd_run_miner_pow)
  have same_count: "count_list (queue (snd (run_miner_pow w pow_timeout run_id hash salt mode chars mask' hashcat_path
          hashcat_workload_profile hashcat_extended_options s))) run_id = count_list (queue s) run_id"
    unfolding after by (rule count_list_remove1_append)
  from escapes returns after same_count show ?thesis by blast
qed

text \<open>
  The amended claim C1 on a child that cannot be started, and on an interrupted one,
  after which the queue is empty again.
\<close>

theorem run_miner_pow_returns_result_witness:
  "(\<exists>r. fst (run_miner_pow (world_of tool_missing) 30 (str_lit ''job-1'') (str_lit ''abc'') (str_lit ''salt'') (str_lit ''610'')
      (str_lit ''?l?d'') (str_lit ''?1?1?1'') (str_lit ''hashcat'') (str_lit ''3'') (str_lit ''--force'') idle) = Inr r \<and>
        error r \<noteq> None \<and> password r = None) \<and>
   fst (run_miner_pow (world_of tool_interrupted) 30 (str_lit ''job-1'') (str_lit ''abc'') (str_lit ''salt'') (str_lit ''610'')
      (str_lit ''?l?d'') (str_lit ''?1?1?1'') (str_lit ''hashcat'') (str_lit ''3'') (str_lit ''--force'') idle) = Inl (Exc BaseExceptionOnly []) \<and>
   queue (snd (run_miner_pow (world_of tool_interrupted) 30 (str_lit ''job-1'') (str_lit ''abc'') (str_lit ''salt'') (str_lit ''610'')
      (str_lit ''?l?d'') (str_lit ''?1?1?1'') (str_lit ''hashcat'') (str_lit ''3'') (str_lit ''--force'') idle)) = []"
proof -
  have caught: "\<forall>m. subprocess_run (world_of tool_missing) (hashcat_command (str_lit ''hashcat'') (str_lit ''abc'') (str_lit ''salt'') (str_lit ''610'')
      (str_lit ''?l?d'') (str_lit ''?1?1?1'') (str_lit ''3'') (filter (\<lambda>c. c \<noteq> 45) (uuid4 (world_of tool_missing)))) 30 \<noteq>
      Raises (Exc BaseExceptionOnly m)"
    by (simp add: world_of_def tool_missing_def)
  have not_found: "\<not> (\<exists>out err plain.
      subprocess_run (world_of tool_missing) (hashcat_command (str_lit ''hashcat'') (str_lit ''abc'') (str_lit ''salt'') (str_lit ''610'')
      (str_lit ''?l?d'') (str_lit ''?1?1?1'') (str_lit ''3'') (filter (\<lambda>c. c \<noteq> 45) (uuid4 (world_of tool_missing)))) 30 =
        CompletedProcess 0 out err \<and>
      out \<noteq> [] \<and> hashcat_verify (str_lit ''abc'') out = Inr (Some plain) \<and> plain \<noteq> [])"
    by (simp add: world_of_def tool_missing_def)
  from run_miner_pow_returns_result [THEN conjunct1, THEN mp, OF caught,
      of "str_lit ''job-1''" "str_lit ''--force''" idle] not_found
  have converted: "\<exists>r. fst (run_miner_pow (world_of tool_missing) 30 (str_lit ''job-1'') (str_lit ''abc'') (str_lit ''salt'') (str_lit ''610'')
      (str_lit ''?l?d'') (str_lit ''?1?1?1'') (str_lit ''hashcat'') (str_lit ''3'') (str_lit ''--force'') idle) = Inr r \<and>
        error r \<noteq> None \<and> password r = None"
    by auto
  have tool: "subprocess_run (world_of tool_interrupted) (hashcat_command (str_lit ''hashcat'') (str_lit ''abc'') (str_lit ''salt'') (str_lit ''610'')
      (str_lit ''?l?d'') (str_lit ''?1?1?1'') (str_lit ''3'') (filter (\<lambda>c. c \<noteq> 45) (uuid4 (world_of tool_interrupted)))) 30 =
      Raises (Exc BaseExceptionOnly [])"
    by (simp add: world_of_def tool_interrupted_def)
  from run_miner_pow_returns_result [THEN conjunct2, THEN conjunct1, rule_format, OF tool,
      of "str_lit ''job-1''" "str_lit ''--force''" idle]
  have raised: "fst (run_miner_pow (world_of tool_interrupted) 30 (str_lit ''job-1'') (str_lit ''abc'') (str_lit ''salt'') (str_lit ''610'')
      (str_lit ''?l?d'') (str_lit ''?1?1?1'') (str_lit ''hashcat'') (str_lit ''3'') (str_lit ''--force'') idle) = Inl (Exc BaseExceptionOnly [])" .
  from run_miner_pow_returns_result [THEN conjunct2, THEN conjunct2, THEN conjunct1,
      of "world_of tool_interrupted" 30 "str_lit ''job-1''" "str_lit ''abc''" "str_lit ''salt''" "str_lit ''610''" "str_lit ''?l?d''" "str_lit ''?1?1?1''"
      "str_lit ''hashcat''" "str_lit ''3''" "str_lit ''--force''" idle]
  have removed: "queue (snd (run_miner_pow (world_of tool_interrupted) 30 (str_lit ''job-1'') (str_lit ''abc'') (str_lit ''salt'') (str_lit ''610'')
      (str_lit ''?l?d'') (str_lit ''?1?1?1'') (str_lit ''hashcat'') (str_lit ''3'') (str_lit ''--force'') idle)) = []"
    by (simp add: idle_def)
  from converted raised removed show ?thesis by blast
qed




text \<open>
  Claim C7: two calls of \<open>run_miner_pow\<close> that differ in
  \<open>hashcat_extended_options\<close> only give the same result and the same state; this
  also holds across two environments that agree on the clock, the number format, the
  session identifier and the behaviour of the child on the one argument vector built,
  in which the extended options do not occur.
\<close>

theorem run_miner_pow_ignores_extended_options:
  "run_miner_pow w pow_timeout run_id hash salt mode chars mask' hashcat_path
      hashcat_workload_profile extended_options s =
   run_miner_pow w pow_timeout run_id hash salt mode chars mask' hashcat_path
      hashcat_workload_profile extended_options' s \<and>
   (subprocess_run w' (hashcat_command hashcat_path hash salt mode chars mask'
        hashcat_workload_profile (filter (\<lambda>c. c \<noteq> 45) (uuid4 w))) pow_timeout =
    subprocess_run w (hashcat_command hashcat_path hash salt mode chars mask'
        hashcat_workload_profile (filter (\<lambda>c. c \<noteq> 45) (uuid4 w))) pow_timeout \<and>
    time_time w' = time_time w \<and> format_2f w' = format_2f w \<and> uuid4 w' = uuid4 w \<longrightarrow>
      run_miner_pow w' pow_timeout run_id hash salt mode chars mask' hashcat_path
        hashcat_workload_profile extended_options s =
      run_miner_pow w pow_timeout run_id hash salt mode chars mask' hashcat_path
        hashcat_workload_profile extended_options' s)"
proof -
  have same: "run_miner_pow w' pow_timeout run_id hash salt mode chars mask' hashcat_path
        hashcat_workload_profile extended_options s =
      run_miner_pow w pow_timeout run_id hash salt mode chars mask' hashcat_path
        hashcat_workload_profile extended_options' s"
    if tool: "subprocess_run w' (hashcat_command hashcat_path hash salt mode chars mask'
        hashcat_workload_profile (filter (\<lambda>c. c \<noteq> 45) (uuid4 w))) pow_timeout =
      subprocess_run w (hashcat_command hashcat_path hash salt mode chars mask'
        hashcat_workload_profile (filter (\<lambda>c. c \<noteq> 45) (uuid4 w))) pow_timeout"
      and clock: "time_time w' = time_time w" and fmt: "format_2f w' = format_2f w"
      and uuid: "uuid4 w' = uuid4 w"
    using run_hashcat_cong [OF tool clock fmt, of run_id "s\<lparr>queue := queue s @ [run_id]\<rparr>"] uuid
    by (simp add: run_miner_pow_unfold)
  have "run_miner_pow w pow_timeout run_id hash salt mode chars mask' hashcat_path
      hashcat_workload_profile extended_options s =
   run_miner_pow w pow_timeout run_id hash salt mode chars mask' hashcat_path
      hashcat_workload_profile extended_options' s"
    by (simp add: run_miner_pow_def)
  with same show ?thesis by blast
qed

text \<open>
  Claim C7 on the options \<open>--force\<close> and the empty string.
\<close>

theorem run_miner_pow_ignores_extended_options_witness:
  "run_miner_pow (world_of tool_mask_only) 30 (str_lit ''job-1'') (str_lit ''abc'') (str_lit ''salt'') (str_lit ''610'')
      (str_lit ''?l?d'') (str_lit ''?1?1?1'') (str_lit ''hashcat'') (str_lit ''3'') (str_lit ''--force'') idle =
   run_miner_pow (world_of tool_found) 30 (str_lit ''job-1'') (str_lit ''abc'') (str_lit ''salt'') (str_lit ''610'')
      (str_lit ''?l?d'') (str_lit ''?1?1?1'') (str_lit ''hashcat'') (str_lit ''3'') [] idle"
proof -
  have tool: "subprocess_run (world_of tool_mask_only) (hashcat_command (str_lit ''hashcat'') (str_lit ''abc'') (str_lit ''salt'') (str_lit ''610'')
      (str_lit ''?l?d'') (str_lit ''?1?1?1'') (str_lit ''3'') (filter (\<lambda>c. c \<noteq> 45) (uuid4 (world_of tool_found)))) 30 =
      subprocess_run (world_of tool_found) (hashcat_command (str_lit ''hashcat'') (str_lit ''abc'') (str_lit ''salt'') (str_lit ''610'')
      (str_lit ''?l?d'') (str_lit ''?1?1?1'') (str_lit ''3'') (filter (\<lambda>c. c \<noteq> 45) (uuid4 (world_of tool_found)))) 30"
    by (simp add: world_of_def tool_mask_only_def hashcat_command_def)
  have clock: "time_time (world_of tool_mask_only) = time_time (world_of tool_found)"
    by (simp add: world_of_def)
  have fmt: "format_2f (world_of tool_mask_only) = format_2f (world_of tool_found)"
    by (simp add: world_of_def)
  have uuid: "uuid4 (world_of tool_mask_only) = uuid4 (world_of tool_found)"
    by (simp add: world_of_def)
  from run_miner_pow_ignores_extended_options [THEN conjunct2, rule_format,
      OF conjI [OF tool conjI [OF clock conjI [OF fmt uuid]]]]
  show ?thesis .
qed

end
